theory Spec2Isabelle
  imports Main
begin

section \<open>The notebook's cluster description\<close>

text \<open>
  The repository is one notebook, \<^verbatim>\<open>distributed_tensorflow_framework.ipynb\<close>. Its code
  cells configure TensorFlow: they build a cluster description, start a server for one
  task of it, and open a monitored training session. The parameter store, the checkpoint
  writer and the stop coordination run inside TensorFlow and are not code of the notebook.
  What is embedded here is the notebook's own code: the values it builds, the arguments it
  passes, and the control flow of its \<^verbatim>\<open>worker\<close> function.

  \<^verbatim>\<open>
  ps_hosts = ['10.189.253.1:2222']
  worker_hosts = ['10.189.253.2:2222', '10.189.253.3:2222']
  cluster = tf.train.ClusterSpec({'ps': ps_hosts, 'worker': worker_hosts})
  \<close>
  The dictionary literal is kept as an association list, in the order it is written.
\<close>

type_synonym cluster_spec = "(string \<times> string list) list"

definition ps_hosts :: "string list" where
  "ps_hosts = [''10.189.253.1:2222'']"

definition worker_hosts :: "string list" where
  "worker_hosts = [''10.189.253.2:2222'', ''10.189.253.3:2222'']"

definition cluster :: cluster_spec where
  "cluster = [(''ps'', ps_hosts), (''worker'', worker_hosts)]"

section \<open>Servers, hooks and session arguments\<close>

text \<open>
  \<^verbatim>\<open>tf.train.Server(server_or_cluster_def=cluster, job_name=..., task_index=...)\<close>
  is a library constructor; the model records the three arguments it is given. Python's
  \<^verbatim>\<open>task_index\<close> is an unbounded integer.
\<close>

record server =
  server_or_cluster_def :: cluster_spec
  job_name :: string
  task_index :: int

definition Server :: "cluster_spec \<Rightarrow> string \<Rightarrow> int \<Rightarrow> server" where
  "Server c j t = \<lparr>server_or_cluster_def = c, job_name = j, task_index = t\<rparr>"

text \<open>\<^verbatim>\<open>server.target\<close>: the address a session connects to, identified by the server.\<close>

datatype target = Target server

datatype hook = StopAtStepHook (last_step: int)

text \<open>
  \<^verbatim>\<open>tf.ConfigProto(allow_soft_placement=..., log_device_placement=...)\<close>, with the field
  \<^verbatim>\<open>gpu_options.allow_growth\<close>, which is false until it is assigned.
\<close>

record config_proto =
  allow_soft_placement :: bool
  log_device_placement :: bool
  allow_growth :: bool

definition ConfigProto :: "bool \<Rightarrow> bool \<Rightarrow> config_proto" where
  "ConfigProto soft logp =
     \<lparr>allow_soft_placement = soft, log_device_placement = logp, allow_growth = False\<rparr>"

text \<open>The keyword arguments that the notebook passes to
  \<^verbatim>\<open>tf.train.MonitoredTrainingSession\<close>.\<close>

record session_args =
  config :: config_proto
  master :: target
  is_chief :: bool
  checkpoint_dir :: string
  hooks :: "hook list"

text \<open>
  The example cell of section 3 of the notebook:
  \<^verbatim>\<open>
  hooks = [tf.train.StopAtStepHook(last_step=100000)]
  config = tf.ConfigProto(allow_soft_placement=True, log_device_placement=False)
  with tf.train.MonitoredTrainingSession(
      config=config,
      master=server.target,
      is_chief=(task_index == 0),  # appoint worker 0 as chief worker
      checkpoint_dir='tem/train_logs',
      hooks=hooks
  ) as sess:
  \<close>
  The cell reads \<^verbatim>\<open>server\<close> and \<^verbatim>\<open>task_index\<close> from its environment; they are
  parameters here.
\<close>

definition example_session_args :: "server \<Rightarrow> int \<Rightarrow> session_args" where
  "example_session_args srv task_idx =
     (let hks = [StopAtStepHook 100000];
          cfg = ConfigProto True False
      in \<lparr>config = cfg,
          master = Target srv,
          is_chief = (task_idx = 0),
          checkpoint_dir = ''tem/train_logs'',
          hooks = hks\<rparr>)"

text \<open>
  The same call in the \<^verbatim>\<open>worker\<close> function of the final skeleton:
  \<^verbatim>\<open>
  hooks = [tf.train.StopAtStepHook(last_step=100000)]
  config = tf.ConfigProto(allow_soft_placement=True, log_device_placement=False)
  config.gpu_options.allow_growth = True
  with tf.train.MonitoredTrainingSession(
      config=config,
      master=server.target,
      is_chief=(task_index == task_index),
      checkpoint_dir='tem/train_logs',
      hooks=hooks
  ) as sess:
  \<close>
\<close>

definition worker_session_args :: "server \<Rightarrow> int \<Rightarrow> session_args" where
  "worker_session_args srv task_idx =
     (let hks = [StopAtStepHook 100000];
          cfg = (ConfigProto True False)\<lparr>allow_growth := True\<rparr>
      in \<lparr>config = cfg,
          master = Target srv,
          is_chief = (task_idx = task_idx),
          checkpoint_dir = ''tem/train_logs'',
          hooks = hks\<rparr>)"

section \<open>The worker function\<close>

text \<open>
  Modelled from the spec: \<^verbatim>\<open>tf.train.Server.join\<close> is TensorFlow library code and is not
  in the repository. The specification states of the notebook's call
  \<^verbatim>\<open>server.join()\<close> that it never returns, which is also what the library documents
  (the method blocks forever). A call that does not return is the value \<open>None\<close>.
\<close>

partial_function (option) server_join :: "server \<Rightarrow> unit option" where
  "server_join srv = server_join srv"

text \<open>
  \<^verbatim>\<open>
  while not sess.should_stop():
      sess.run(train_op)
  \<close>
  What \<^verbatim>\<open>should_stop\<close> answers and what \<^verbatim>\<open>run\<close> does to the session are
  decided by the library and by the graph (left as \<^verbatim>\<open>...\<close> in the notebook); both are
  parameters. The loop may run forever, so its result is an option.
\<close>

partial_function (option) train_loop :: "('s \<Rightarrow> bool) \<Rightarrow> ('s \<Rightarrow> 's) \<Rightarrow> 's \<Rightarrow> 's option" where
  "train_loop should_stop run sess =
     (if \<not> should_stop sess then train_loop should_stop run (run sess) else Some sess)"

text \<open>How a call of \<^verbatim>\<open>worker\<close> ends when it returns: without having opened a session,
  or after leaving the session block with the session in its last state.\<close>

datatype 's exit = No_session | Session_closed 's

text \<open>
  \<^verbatim>\<open>
  def worker(job_name, task_index):
      server = tf.train.Server(server_or_cluster_def=cluster,
                               job_name=job_name, task_index=task_index)
      if job_name == 'ps':
          print('Start Parameter Sever: ', task_index)
          server.join()
      elif job_name == 'worker':
          ...  # graph, hooks, config
          with tf.train.MonitoredTrainingSession(...) as sess:
              while not sess.should_stop():
                  sess.run(train_op)
  \<close>
  \<open>open_session\<close> stands for the library's \<^verbatim>\<open>MonitoredTrainingSession\<close>: it maps the
  arguments to the initial session. The line printed by the \<^verbatim>\<open>ps\<close> branch and the
  graph construction of the \<^verbatim>\<open>worker\<close> branch do not influence the control flow and
  are left out. The value is \<open>None\<close> when the call never returns.
\<close>

definition worker ::
  "(session_args \<Rightarrow> 's) \<Rightarrow> ('s \<Rightarrow> bool) \<Rightarrow> ('s \<Rightarrow> 's) \<Rightarrow> string \<Rightarrow> int \<Rightarrow> 's exit option" where
  "worker open_session should_stop run job task_idx =
     (let srv = Server cluster job task_idx in
      if job = ''ps'' then
        (case server_join srv of None \<Rightarrow> None | Some _ \<Rightarrow> Some No_session)
      else if job = ''worker'' then
        (case train_loop should_stop run (open_session (worker_session_args srv task_idx)) of
           None \<Rightarrow> None
         | Some sess \<Rightarrow> Some (Session_closed sess))
      else Some No_session)"

text \<open>\<^verbatim>\<open>if __name__ == '__main__': worker('ps', 0)\<close>\<close>

definition main :: "(session_args \<Rightarrow> 's) \<Rightarrow> ('s \<Rightarrow> bool) \<Rightarrow> ('s \<Rightarrow> 's) \<Rightarrow> 's exit option" where
  "main open_session should_stop run = worker open_session should_stop run ''ps'' 0"

section \<open>Properties\<close>

lemma server_join_no_result: "server_join srv = Some u \<Longrightarrow> False"
  by (rule server_join.raw_induct [where P = "\<lambda>_ _. False"])

lemma server_join_never_returns: "server_join srv = None"
  using server_join_no_result [of srv] by (cases "server_join srv") auto

lemma worker_ps_diverges: "worker open_session should_stop run ''ps'' task_idx = None"
  by (simp add: worker_def server_join_never_returns)

lemma worker_other_job:
  "job \<noteq> ''ps'' \<Longrightarrow> job \<noteq> ''worker'' \<Longrightarrow>
   worker open_session should_stop run job task_idx = Some No_session"
  by (simp add: worker_def)

lemma worker_worker_session:
  "worker open_session should_stop run ''worker'' task_idx =
     map_option Session_closed
       (train_loop should_stop run
          (open_session (worker_session_args (Server cluster ''worker'' task_idx) task_idx)))"
  by (simp add: worker_def split: option.split)

lemma train_loop_stops_only_when_asked:
  assumes "train_loop should_stop run sess = Some sess'"
  shows "should_stop sess'"
proof (rule train_loop.raw_induct [where P = "\<lambda>ss r s s'. ss s'", OF _ assms])
  fix loop :: "('a \<Rightarrow> bool) \<Rightarrow> ('a \<Rightarrow> 'a) \<Rightarrow> 'a \<Rightarrow> 'a option" and ss r s s'
  assume IH: "\<And>ss r s s'. loop ss r s = Some s' \<Longrightarrow> ss s'"
    and step: "(if \<not> ss s then loop ss r (r s) else Some s) = Some s'"
  show "ss s'"
  proof (cases "ss s")
    case True
    with step show ?thesis by simp
  next
    case False
    with step have "loop ss r (r s) = Some s'" by simp
    then show ?thesis by (rule IH)
  qed
qed

lemma train_loop_returns:
  "should_stop ((run ^^ n) sess) \<Longrightarrow> \<exists>sess'. train_loop should_stop run sess = Some sess'"
proof (induction n arbitrary: sess)
  case 0
  then show ?case by (simp add: train_loop.simps)
next
  case (Suc n)
  from Suc.prems have "should_stop ((run ^^ n) (run sess))"
    by (simp add: funpow_swap1)
  then obtain sess' where "train_loop should_stop run (run sess) = Some sess'"
    using Suc.IH by blast
  then show ?case
    by (cases "should_stop sess") (simp_all add: train_loop.simps [of should_stop run sess])
qed

text \<open>
  C10. In the \<^verbatim>\<open>worker\<close> function of the final skeleton the \<^verbatim>\<open>is_chief\<close> argument is
  \<^verbatim>\<open>task_index == task_index\<close>, which is true for every task index, so every worker
  process opens its session as chief; the example cell before it passes
  \<^verbatim>\<open>task_index == 0\<close>, which is true for worker 0 only.
\<close>

theorem worker_is_chief_for_every_task_index:
  "is_chief (worker_session_args srv task_idx) \<and>
   is_chief (example_session_args srv task_idx) = (task_idx = 0)"
  by (simp add: worker_session_args_def example_session_args_def)

theorem worker_is_chief_for_every_task_index_witness:
  "is_chief (worker_session_args (Server cluster ''worker'' 1) 1) \<and>
   \<not> is_chief (example_session_args (Server cluster ''worker'' 1) 1)"
  using worker_is_chief_for_every_task_index [of "Server cluster ''worker'' 1" 1] by simp

text \<open>
  C9. The parameter-server process should stop running once training is complete. In the
  notebook the \<^verbatim>\<open>ps\<close> branch of \<^verbatim>\<open>worker\<close> calls \<^verbatim>\<open>server.join()\<close>, so the
  call \<^verbatim>\<open>worker('ps', 0)\<close> made by the main block never returns, whatever the sessions
  of the workers do: the process does not exit.
\<close>

theorem ps_process_never_returns:
  "main open_session should_stop run = None"
  by (simp add: main_def worker_ps_diverges)

end
